theory Spec2Isabelle
  imports Complex_Main
begin

section \<open>Domain model (types/assessment.ts)\<close>

text \<open>
  The TypeScript interfaces become records, the string-literal unions become datatypes.
  A field declared with \<open>?\<close> is an \<open>option\<close> (\<open>None\<close> is JavaScript's
  \<open>undefined\<close>). The fields of the three entities are prefixed (\<open>q_\<close>, \<open>s_\<close>,
  \<open>a_\<close>) because \<open>id\<close>, \<open>title\<close>, \<open>description\<close> and \<open>order\<close> occur in more
  than one interface. JavaScript numbers that are not lengths or positions are taken as
  rationals; \<open>order\<close>, which the code only ever sets to a list length, is a natural
  number. Strings are lists of code units.
\<close>

type_synonym jsnumber = rat

datatype QuestionType =
  SingleChoice | MultiChoice | ShortText | LongText | Numeric | FileUpload

record ValidationRule =
  minLength :: "jsnumber option"
  maxLength :: "jsnumber option"
  minValue :: "jsnumber option"
  maxValue :: "jsnumber option"
  pattern :: "string option"
  v_required :: "bool option"

datatype Condition = Equals | NotEquals | Contains | GreaterThan | LessThan

text \<open>\<open>ConditionalLogic.value\<close> has type \<open>string | number\<close>.\<close>

datatype cvalue = CStr string | CNum jsnumber

record ConditionalLogic =
  dependsOn :: string
  condition :: Condition
  c_value :: cvalue

record Question =
  q_id :: string
  q_type :: QuestionType
  q_title :: string
  q_description :: "string option"
  q_required :: bool
  q_order :: nat
  q_validation :: "ValidationRule option"
  q_conditional :: "ConditionalLogic option"
  q_options :: "string list option"
  q_placeholder :: "string option"

record Section =
  s_id :: string
  s_title :: string
  s_description :: "string option"
  s_order :: nat
  s_questions :: "Question list"
  s_isExpanded :: "bool option"

text \<open>
  A \<open>Date\<close> object either holds a time value (milliseconds) or is an Invalid Date
  (time value NaN).
\<close>

datatype jsdate = DateAt int | InvalidDate

record Assessment =
  a_id :: string
  a_jobId :: string
  a_title :: string
  a_description :: string
  a_sections :: "Section list"
  a_createdAt :: jsdate
  a_updatedAt :: jsdate

section \<open>Response values and JavaScript coercions\<close>

text \<open>
  The response map of LivePreview is a \<open>Record<string, any>\<close> that is only ever written
  by \<open>updateResponse\<close>, with a string (text, numeric and single-choice inputs) or an
  array of strings (the check boxes of a multi-choice question). A JavaScript object is
  an association list; reading a key that is absent gives \<open>undefined\<close>, here \<open>None\<close>.
\<close>

datatype answer = Str string | Arr "string list"

type_synonym 'v jsobject = "(string \<times> 'v) list"

definition obj_get :: "'v jsobject \<Rightarrow> string \<Rightarrow> 'v option" where
  "obj_get obj k = map_of obj k"

text \<open>\<open>obj[k] = v\<close>: an existing key keeps its place, a new key goes last.\<close>

fun obj_set :: "string \<Rightarrow> 'v \<Rightarrow> 'v jsobject \<Rightarrow> 'v jsobject" where
  "obj_set k v [] = [(k, v)]"
| "obj_set k v ((k', v') # rest) =
     (if k' = k then (k, v) # rest else (k', v') # obj_set k v rest)"

text \<open>\<open>delete obj[k]\<close>.\<close>

definition obj_delete :: "string \<Rightarrow> 'v jsobject \<Rightarrow> 'v jsobject" where
  "obj_delete k obj = filter (\<lambda>kv. fst kv \<noteq> k) obj"

text \<open>\<open>Object.keys(obj)\<close>: every key once.\<close>

definition Object_keys :: "'v jsobject \<Rightarrow> string list" where
  "Object_keys obj = remdups (map fst obj)"

text \<open>
  \<open>!value\<close> on a response value: \<open>undefined\<close> and the empty string are falsy, every
  array (also the empty one) is truthy.
\<close>

fun falsy :: "answer option \<Rightarrow> bool" where
  "falsy None = True"
| "falsy (Some (Str s)) = (s = [])"
| "falsy (Some (Arr xs)) = False"

text \<open>\<open>Array.prototype.join\<close>, which \<open>String(array)\<close> calls with a comma.\<close>

fun join :: "string \<Rightarrow> string list \<Rightarrow> string" where
  "join sep [] = []"
| "join sep [x] = x"
| "join sep (x # y # ys) = x @ sep @ join sep (y # ys)"

text \<open>\<open>String(value || '')\<close> on a response value.\<close>

fun String_or_empty :: "answer option \<Rightarrow> string" where
  "String_or_empty None = []"
| "String_or_empty (Some (Str s)) = s"
| "String_or_empty (Some (Arr xs)) = join '','' xs"

text \<open>
  \<open>String(conditional.value)\<close>. How JavaScript prints a number is not part of the
  repository: the printer is the parameter \<open>numString\<close>.
\<close>

fun String_cvalue :: "(jsnumber \<Rightarrow> string) \<Rightarrow> cvalue \<Rightarrow> string" where
  "String_cvalue numString (CStr s) = s"
| "String_cvalue numString (CNum n) = numString n"

text \<open>\<open>s.includes(p)\<close>: \<open>p\<close> occurs in \<open>s\<close> as a contiguous substring.\<close>

fun is_prefix :: "string \<Rightarrow> string \<Rightarrow> bool" where
  "is_prefix [] s = True"
| "is_prefix (c # p) [] = False"
| "is_prefix (c # p) (d # s) = (c = d \<and> is_prefix p s)"

fun str_includes :: "string \<Rightarrow> string \<Rightarrow> bool" where
  "str_includes [] p = (p = [])"
| "str_includes (c # s) p = (is_prefix p (c # s) \<or> str_includes s p)"

text \<open>
  \<open>dependentValue === conditional.value\<close>: strict equality holds only between two equal
  strings (a response value is never a number, an array is never identical to a
  primitive, \<open>undefined\<close> is identical only to itself).
\<close>

fun strict_equal :: "answer option \<Rightarrow> cvalue \<Rightarrow> bool" where
  "strict_equal (Some (Str s)) (CStr t) = (s = t)"
| "strict_equal _ _ = False"

section \<open>Live preview (LivePreview.tsx)\<close>

subsection \<open>Conditional visibility in \<open>renderQuestion\<close>\<close>

text \<open>
  The immediately invoked function \<open>shouldShow\<close>: a \<open>switch\<close> over the condition tag
  with cases for \<open>equals\<close>, \<open>not-equals\<close> and \<open>contains\<close> and a \<open>default\<close> that
  returns true.
\<close>

fun shouldShow ::
  "(jsnumber \<Rightarrow> string) \<Rightarrow> ConditionalLogic \<Rightarrow> answer jsobject \<Rightarrow> bool" where
  "shouldShow numString c responses =
     (let dependentValue = obj_get responses (dependsOn c) in
      case condition c of
        Equals \<Rightarrow> strict_equal dependentValue (c_value c)
      | NotEquals \<Rightarrow> \<not> strict_equal dependentValue (c_value c)
      | Contains \<Rightarrow>
          str_includes (String_or_empty dependentValue) (String_cvalue numString (c_value c))
      | _ \<Rightarrow> True)"

text \<open>
  \<open>renderQuestion\<close> returns \<open>null\<close> (nothing is drawn) when the question has a
  conditional and \<open>shouldShow\<close> is false; \<open>renderQuestion_visible\<close> is true when it
  returns an element.
\<close>

definition renderQuestion_visible ::
  "(jsnumber \<Rightarrow> string) \<Rightarrow> Question \<Rightarrow> answer jsobject \<Rightarrow> bool" where
  "renderQuestion_visible numString question responses =
     (case q_conditional question of
        None \<Rightarrow> True
      | Some c \<Rightarrow> shouldShow numString c responses)"

subsection \<open>Validation\<close>

text \<open>
  The built-in \<open>Number(value)\<close> is the parameter \<open>toNumber\<close>, with \<open>None\<close> for
  NaN, against which every comparison is false; \<open>numString\<close> prints a bound inside a
  message.
\<close>

fun js_lt :: "jsnumber option \<Rightarrow> jsnumber \<Rightarrow> bool" where
  "js_lt None b = False"
| "js_lt (Some n) b = (n < b)"

fun js_gt :: "jsnumber option \<Rightarrow> jsnumber \<Rightarrow> bool" where
  "js_gt None b = False"
| "js_gt (Some n) b = (n > b)"

text \<open>The body of \<open>if (question.type === 'numeric' && question.validation)\<close>.\<close>

definition numeric_bounds ::
  "(answer option \<Rightarrow> jsnumber option) \<Rightarrow> (jsnumber \<Rightarrow> string)
     \<Rightarrow> ValidationRule \<Rightarrow> answer option \<Rightarrow> string option" where
  "numeric_bounds toNumber numString v val =
     (let numValue = toNumber val;
          belowMin = (case minValue v of
                        Some lo \<Rightarrow> if js_lt numValue lo
                                   then Some (''Value must be at least '' @ numString lo)
                                   else None
                      | None \<Rightarrow> None);
          aboveMax = (case maxValue v of
                        Some hi \<Rightarrow> if js_gt numValue hi
                                   then Some (''Value must be at most '' @ numString hi)
                                   else None
                      | None \<Rightarrow> None)
      in case belowMin of Some e \<Rightarrow> Some e | None \<Rightarrow> aboveMax)"

text \<open>
  The body of \<open>if ((question.type === 'short-text' || question.type === 'long-text')
  && question.validation)\<close>: the measured text is \<open>String(value || '')\<close>.
\<close>

definition text_bounds ::
  "(jsnumber \<Rightarrow> string) \<Rightarrow> ValidationRule \<Rightarrow> answer option \<Rightarrow> string option" where
  "text_bounds numString v val =
     (let textValue = String_or_empty val;
          tooShort = (case minLength v of
                        Some lo \<Rightarrow> if of_nat (length textValue) < lo
                                   then Some (''Must be at least '' @ numString lo @ '' characters'')
                                   else None
                      | None \<Rightarrow> None);
          tooLong = (case maxLength v of
                       Some hi \<Rightarrow> if of_nat (length textValue) > hi
                                  then Some (''Must be at most '' @ numString hi @ '' characters'')
                                  else None
                     | None \<Rightarrow> None)
      in case tooShort of Some e \<Rightarrow> Some e | None \<Rightarrow> tooLong)"

text \<open>\<open>validateQuestion\<close> returns the error message, or \<open>null\<close> (\<open>None\<close>).\<close>

definition validateQuestion ::
  "(answer option \<Rightarrow> jsnumber option) \<Rightarrow> (jsnumber \<Rightarrow> string)
     \<Rightarrow> Question \<Rightarrow> answer option \<Rightarrow> string option" where
  "validateQuestion toNumber numString question val =
     (if q_required question \<and>
         (falsy val \<or> (case val of Some (Arr xs) \<Rightarrow> length xs = 0 | _ \<Rightarrow> False))
      then Some ''This field is required''
      else
        case (if q_type question = Numeric
              then (case q_validation question of
                      Some v \<Rightarrow> numeric_bounds toNumber numString v val
                    | None \<Rightarrow> None)
              else None) of
          Some e \<Rightarrow> Some e
        | None \<Rightarrow>
            (if q_type question = ShortText \<or> q_type question = LongText
             then (case q_validation question of
                     Some v \<Rightarrow> text_bounds numString v val
                   | None \<Rightarrow> None)
             else None))"

text \<open>
  The state of the LivePreview component (its four \<open>useState\<close> cells).
\<close>

record Preview =
  responses :: "answer jsobject"
  currentSectionIndex :: nat
  isTestMode :: bool
  validationErrors :: "string jsobject"

text \<open>\<open>assessment.sections[currentSectionIndex]\<close>, \<open>undefined\<close> out of range.\<close>

definition currentSection :: "Assessment \<Rightarrow> Preview \<Rightarrow> Section option" where
  "currentSection assessment p =
     (if currentSectionIndex p < length (a_sections assessment)
      then Some (a_sections assessment ! currentSectionIndex p) else None)"

text \<open>
  The \<open>forEach\<close> of \<open>validateCurrentSection\<close>: it visits every question of the
  section and stores the message of each failing one under the question's id.
\<close>

fun collect_errors ::
  "(answer option \<Rightarrow> jsnumber option) \<Rightarrow> (jsnumber \<Rightarrow> string)
     \<Rightarrow> answer jsobject \<Rightarrow> Question list \<Rightarrow> string jsobject \<Rightarrow> string jsobject" where
  "collect_errors toNumber numString rs [] errors = errors"
| "collect_errors toNumber numString rs (question # rest) errors =
     (case validateQuestion toNumber numString question (obj_get rs (q_id question)) of
        Some error \<Rightarrow>
          collect_errors toNumber numString rs rest (obj_set (q_id question) error errors)
      | None \<Rightarrow> collect_errors toNumber numString rs rest errors)"

text \<open>
  \<open>validateCurrentSection\<close>: the returned boolean and the state after
  \<open>setValidationErrors(errors)\<close>. Without a current section it returns true and
  sets nothing. Every message is a non-empty string, so \<open>if (error)\<close> holds exactly
  when \<open>validateQuestion\<close> returned one, and \<open>hasErrors\<close> is true exactly when
  \<open>errors\<close> has an entry.
\<close>

definition validateCurrentSection ::
  "(answer option \<Rightarrow> jsnumber option) \<Rightarrow> (jsnumber \<Rightarrow> string)
     \<Rightarrow> Assessment \<Rightarrow> Preview \<Rightarrow> bool \<times> Preview" where
  "validateCurrentSection toNumber numString assessment p =
     (case currentSection assessment p of
        None \<Rightarrow> (True, p)
      | Some section \<Rightarrow>
          (let errors = collect_errors toNumber numString (responses p) (s_questions section) []
           in (errors = [], p\<lparr>validationErrors := errors\<rparr>)))"

text \<open>\<open>updateResponse\<close>: store the answer, drop a displayed error of that question.\<close>

definition updateResponse :: "string \<Rightarrow> answer \<Rightarrow> Preview \<Rightarrow> Preview" where
  "updateResponse questionId val p =
     (let p' = p\<lparr>responses := obj_set questionId val (responses p)\<rparr> in
      case obj_get (validationErrors p) questionId of
        Some e \<Rightarrow> if e \<noteq> [] then p'\<lparr>validationErrors := obj_delete questionId (validationErrors p)\<rparr>
                  else p'
      | None \<Rightarrow> p')"

definition goToNextSection ::
  "(answer option \<Rightarrow> jsnumber option) \<Rightarrow> (jsnumber \<Rightarrow> string)
     \<Rightarrow> Assessment \<Rightarrow> Preview \<Rightarrow> Preview" where
  "goToNextSection toNumber numString assessment p =
     (case validateCurrentSection toNumber numString assessment p of
        (ok, p') \<Rightarrow>
          if ok \<and> int (currentSectionIndex p) < int (length (a_sections assessment)) - 1
          then p'\<lparr>currentSectionIndex := currentSectionIndex p + 1\<rparr> else p')"

definition goToPreviousSection :: "Preview \<Rightarrow> Preview" where
  "goToPreviousSection p =
     (if currentSectionIndex p > 0
      then p\<lparr>currentSectionIndex := currentSectionIndex p - 1\<rparr> else p)"

definition resetPreview :: "Preview \<Rightarrow> Preview" where
  "resetPreview p =
     \<lparr>responses = [], currentSectionIndex = 0, isTestMode = False, validationErrors = []\<rparr>"

subsection \<open>Progress\<close>

text \<open>
  JavaScript's \<open>/\<close> on numbers gives NaN or an infinity for a zero divisor, never an
  exception; \<open>js_divide\<close> returns \<open>None\<close> there, so that the guard of \<open>progress\<close>
  is visible in the model. Finite quotients are exact rationals (rounding to a double
  is not modelled).
\<close>

definition js_divide :: "jsnumber \<Rightarrow> jsnumber \<Rightarrow> jsnumber option" where
  "js_divide x y = (if y = 0 then None else Some (x / y))"

definition totalQuestions :: "Assessment \<Rightarrow> nat" where
  "totalQuestions assessment =
     foldl (\<lambda>acc section. acc + length (s_questions section)) 0 (a_sections assessment)"

definition answeredQuestions :: "Preview \<Rightarrow> nat" where
  "answeredQuestions p = length (Object_keys (responses p))"

definition progress :: "Assessment \<Rightarrow> Preview \<Rightarrow> jsnumber option" where
  "progress assessment p =
     (if totalQuestions assessment > 0
      then map_option (\<lambda>x. x * 100)
             (js_divide (of_nat (answeredQuestions p)) (of_nat (totalQuestions assessment)))
      else Some 0)"

section \<open>Persistence hook (hooks/useAssessment.ts)\<close>

definition createSampleAssessment :: "jsdate \<Rightarrow> Assessment" where
  "createSampleAssessment now =
     \<lparr>a_id = ''sample-assessment-1'',
      a_jobId = ''job-frontend-developer'',
      a_title = ''Frontend Developer Assessment'',
      a_description = ''Comprehensive assessment for frontend developer candidates covering technical skills, problem-solving abilities, and cultural fit.'',
      a_sections =
        [\<lparr>s_id = ''section-technical'', s_title = ''Technical Skills'',
          s_description = Some ''Evaluate the candidate's technical knowledge and programming skills.'',
          s_order = 0,
          s_questions =
            [\<lparr>q_id = ''question-js-experience'', q_type = SingleChoice,
              q_title = ''How many years of JavaScript experience do you have?'',
              q_description = Some ''Include both professional and personal project experience.'',
              q_required = True, q_order = 0, q_validation = None, q_conditional = None,
              q_options = Some [''Less than 1 year'', ''1-2 years'', ''3-5 years'', ''5+ years''],
              q_placeholder = None\<rparr>,
             \<lparr>q_id = ''question-frameworks'', q_type = MultiChoice,
              q_title = ''Which frontend frameworks have you worked with?'',
              q_description = Some ''Select all that apply.'',
              q_required = True, q_order = 1, q_validation = None, q_conditional = None,
              q_options = Some [''React'', ''Vue.js'', ''Angular'', ''Svelte'', ''Next.js'', ''Nuxt.js''],
              q_placeholder = None\<rparr>,
             \<lparr>q_id = ''question-code-sample'', q_type = LongText,
              q_title = ''Describe a challenging technical problem you solved recently'',
              q_description = Some ''Include the problem, your approach, and the outcome.'',
              q_required = True, q_order = 2,
              q_validation = Some \<lparr>minLength = Some 100, maxLength = Some 1000,
                minValue = None, maxValue = None, pattern = None, v_required = None\<rparr>,
              q_conditional = None, q_options = None,
              q_placeholder = Some ''Describe the problem, your solution approach, technologies used, and the final outcome...''\<rparr>],
          s_isExpanded = Some True\<rparr>,
         \<lparr>s_id = ''section-experience'', s_title = ''Professional Experience'',
          s_description = Some ''Tell us about your background and career journey.'',
          s_order = 1,
          s_questions =
            [\<lparr>q_id = ''question-years-experience'', q_type = Numeric,
              q_title = ''Total years of professional development experience'',
              q_description = None,
              q_required = True, q_order = 0,
              q_validation = Some \<lparr>minLength = None, maxLength = None,
                minValue = Some 0, maxValue = Some 50, pattern = None, v_required = None\<rparr>,
              q_conditional = None, q_options = None, q_placeholder = None\<rparr>,
             \<lparr>q_id = ''question-portfolio'', q_type = ShortText,
              q_title = ''Portfolio or GitHub URL'',
              q_description = Some ''Share a link to your best work.'',
              q_required = False, q_order = 1, q_validation = None, q_conditional = None,
              q_options = None,
              q_placeholder = Some ''https://github.com/username or https://portfolio.com''\<rparr>,
             \<lparr>q_id = ''question-resume'', q_type = FileUpload,
              q_title = ''Upload your resume'',
              q_description = Some ''Please upload your most recent resume (PDF preferred).'',
              q_required = True, q_order = 2, q_validation = None, q_conditional = None,
              q_options = None, q_placeholder = None\<rparr>],
          s_isExpanded = Some False\<rparr>,
         \<lparr>s_id = ''section-culture'', s_title = ''Culture & Values'',
          s_description = Some ''Help us understand if we're a good mutual fit.'',
          s_order = 2,
          s_questions =
            [\<lparr>q_id = ''question-work-style'', q_type = SingleChoice,
              q_title = ''What work environment do you thrive in?'',
              q_description = None,
              q_required = True, q_order = 0, q_validation = None, q_conditional = None,
              q_options = Some [''Collaborative team environment'',
                ''Independent work with minimal supervision'',
                ''Mix of both collaboration and independent work'',
                ''Highly structured with clear processes''],
              q_placeholder = None\<rparr>,
             \<lparr>q_id = ''question-motivation'', q_type = LongText,
              q_title = ''What motivates you as a developer?'',
              q_description = Some ''Share what drives your passion for development.'',
              q_required = True, q_order = 1,
              q_validation = Some \<lparr>minLength = Some 50, maxLength = Some 500,
                minValue = None, maxValue = None, pattern = None, v_required = None\<rparr>,
              q_conditional = None, q_options = None,
              q_placeholder = Some ''Tell us about what excites you most about software development...''\<rparr>],
          s_isExpanded = Some False\<rparr>],
      a_createdAt = now,
      a_updatedAt = now\<rparr>"

text \<open>
  What \<open>JSON.parse\<close> gives for a stored assessment: the fields of an Assessment, the two
  timestamps still strings (\<open>JSON.stringify\<close> writes a Date as a string).
\<close>

record ParsedAssessment =
  p_id :: string
  p_jobId :: string
  p_title :: string
  p_description :: string
  p_sections :: "Section list"
  p_createdAt :: string
  p_updatedAt :: string

text \<open>
  The initializer of the \<open>useState\<close> in \<open>useAssessment\<close>. Its surroundings are
  parameters: \<open>JSON_parse\<close> is \<open>JSON.parse\<close> restricted to stored assessments, with
  \<open>None\<close> where the \<open>try\<close> block throws; \<open>newDate\<close> is the constructor
  \<open>new Date(string)\<close>, which never throws and gives an Invalid Date for a string it
  cannot read; \<open>now\<close> is \<open>new Date()\<close>; \<open>saved\<close> is the result of
  \<open>localStorage.getItem\<close> (\<open>None\<close> for \<open>null\<close>). \<open>if (saved)\<close> fails for \<open>null\<close>
  and for the empty string.
\<close>

definition useAssessment_init ::
  "(string \<Rightarrow> ParsedAssessment option) \<Rightarrow> (string \<Rightarrow> jsdate) \<Rightarrow> jsdate
     \<Rightarrow> string option \<Rightarrow> Assessment" where
  "useAssessment_init JSON_parse newDate now saved =
     (case saved of
        None \<Rightarrow> createSampleAssessment now
      | Some text \<Rightarrow>
          if text = [] then createSampleAssessment now
          else (case JSON_parse text of
                  None \<Rightarrow> createSampleAssessment now
                | Some parsed \<Rightarrow>
                    \<lparr>a_id = p_id parsed, a_jobId = p_jobId parsed, a_title = p_title parsed,
                     a_description = p_description parsed, a_sections = p_sections parsed,
                     a_createdAt = newDate (p_createdAt parsed),
                     a_updatedAt = newDate (p_updatedAt parsed)\<rparr>))"

text \<open>\<open>updateAssessment\<close>: the new state of the hook (also written to local storage).\<close>

definition updateAssessment :: "jsdate \<Rightarrow> Assessment \<Rightarrow> Assessment" where
  "updateAssessment now newAssessment = newAssessment\<lparr>a_updatedAt := now\<rparr>"

text \<open>\<open>createNewAssessment\<close>; \<open>stamp\<close> is the text of \<open>Date.now()\<close>.\<close>

definition createNewAssessment :: "string \<Rightarrow> jsdate \<Rightarrow> Assessment" where
  "createNewAssessment stamp now =
     updateAssessment now
       \<lparr>a_id = ''assessment-'' @ stamp, a_jobId = [], a_title = ''New Assessment'',
        a_description = ''Enter a description for your assessment...'',
        a_sections = [], a_createdAt = now, a_updatedAt = now\<rparr>"

section \<open>Editing a section (SectionBuilder.tsx)\<close>

text \<open>
  A \<open>Partial<Section>\<close>: each key is absent (\<open>None\<close>) or present with a value.
\<close>

record SectionPartial =
  sp_id :: "string option"
  sp_title :: "string option"
  sp_description :: "string option option"
  sp_order :: "nat option"
  sp_questions :: "Question list option"
  sp_isExpanded :: "bool option option"

definition no_section_updates :: SectionPartial where
  "no_section_updates =
     \<lparr>sp_id = None, sp_title = None, sp_description = None, sp_order = None,
      sp_questions = None, sp_isExpanded = None\<rparr>"

text \<open>The object spread \<open>{ ...s, ...updates }\<close>.\<close>

definition spread_section :: "Section \<Rightarrow> SectionPartial \<Rightarrow> Section" where
  "spread_section s updates =
     \<lparr>s_id = (case sp_id updates of Some x \<Rightarrow> x | None \<Rightarrow> s_id s),
      s_title = (case sp_title updates of Some x \<Rightarrow> x | None \<Rightarrow> s_title s),
      s_description = (case sp_description updates of Some x \<Rightarrow> x | None \<Rightarrow> s_description s),
      s_order = (case sp_order updates of Some x \<Rightarrow> x | None \<Rightarrow> s_order s),
      s_questions = (case sp_questions updates of Some x \<Rightarrow> x | None \<Rightarrow> s_questions s),
      s_isExpanded = (case sp_isExpanded updates of Some x \<Rightarrow> x | None \<Rightarrow> s_isExpanded s)\<rparr>"

text \<open>
  The functions of a SectionBuilder close over its props \<open>section\<close> and
  \<open>assessment\<close>; each returns the assessment it hands to \<open>onUpdateAssessment\<close>.
\<close>

definition updateSection :: "Section \<Rightarrow> Assessment \<Rightarrow> SectionPartial \<Rightarrow> Assessment" where
  "updateSection section assessment updates =
     assessment\<lparr>a_sections :=
       map (\<lambda>s. if s_id s = s_id section then spread_section s updates else s)
         (a_sections assessment)\<rparr>"

definition deleteSection :: "Section \<Rightarrow> Assessment \<Rightarrow> Assessment" where
  "deleteSection section assessment =
     assessment\<lparr>a_sections :=
       filter (\<lambda>s. s_id s \<noteq> s_id section) (a_sections assessment)\<rparr>"

text \<open>
  \<open>duplicateSection\<close>: \<open>stamp\<close> is the text of \<open>Date.now()\<close> for the section id and
  \<open>qstamp i\<close> the text of \<open>${Date.now()}-${Math.random()}\<close> in the callback for the
  question at position \<open>i\<close>.
\<close>

definition duplicateSection ::
  "string \<Rightarrow> (nat \<Rightarrow> string) \<Rightarrow> Section \<Rightarrow> Assessment \<Rightarrow> Assessment" where
  "duplicateSection stamp qstamp section assessment =
     (let newSection = section
            \<lparr>s_id := ''section-'' @ stamp,
             s_title := s_title section @ '' (Copy)'',
             s_order := length (a_sections assessment),
             s_questions :=
               map (\<lambda>(i, q). q\<lparr>q_id := ''question-'' @ qstamp i\<rparr>)
                 (zip [0..<length (s_questions section)] (s_questions section))\<rparr>
      in assessment\<lparr>a_sections := a_sections assessment @ [newSection]\<rparr>)"

definition SectionBuilder_addQuestion :: "string \<Rightarrow> Section \<Rightarrow> Assessment \<Rightarrow> Assessment" where
  "SectionBuilder_addQuestion stamp section assessment =
     (let newQuestion =
            \<lparr>q_id = ''question-'' @ stamp, q_type = ShortText, q_title = ''New Question'',
             q_description = Some [], q_required = False,
             q_order = length (s_questions section),
             q_validation = None, q_conditional = None, q_options = None,
             q_placeholder = Some ''Enter your answer...''\<rparr>
      in updateSection section assessment
           (no_section_updates\<lparr>sp_questions := Some (s_questions section @ [newQuestion])\<rparr>))"

text \<open>
  \<open>deleteQuestion\<close> also clears the selection when the deleted question was selected:
  the result is the assessment and the selected question id.
\<close>

definition deleteQuestion ::
  "string \<Rightarrow> Section \<Rightarrow> Assessment \<Rightarrow> string option \<Rightarrow> Assessment \<times> string option" where
  "deleteQuestion questionId section assessment selectedQuestion =
     (updateSection section assessment
        (no_section_updates\<lparr>sp_questions :=
           Some (filter (\<lambda>q. q_id q \<noteq> questionId) (s_questions section))\<rparr>),
      if selectedQuestion = Some questionId then None else selectedQuestion)"

section \<open>The builder (AssessmentBuilder.tsx)\<close>

text \<open>The click handler of the button "Add New Section".\<close>

definition addSection :: "string \<Rightarrow> Assessment \<Rightarrow> Assessment" where
  "addSection stamp assessment =
     (let newSection =
            \<lparr>s_id = ''section-'' @ stamp, s_title = ''New Section'', s_description = Some [],
             s_order = length (a_sections assessment), s_questions = [],
             s_isExpanded = Some True\<rparr>
      in assessment\<lparr>a_sections := a_sections assessment @ [newSection]\<rparr>)"

text \<open>
  \<open>reorderItems\<close>: its body is the statement \<open>return assessment\<close> below the comments
  "Implementation for reordering sections and questions" and "This would be more
  complex in a real implementation".
\<close>

definition reorderItems :: "Assessment \<Rightarrow> string \<Rightarrow> string \<Rightarrow> Assessment" where
  "reorderItems assessment activeId overId = assessment"

text \<open>
  \<open>handleDragEnd\<close>: \<open>over\<close> is \<open>None\<close> when the item was dropped outside every target.
  The result is the assessment handed to \<open>onUpdateAssessment\<close>, which is followed by the
  toast "Items reordered"; \<open>None\<close> when the handler returns early.
\<close>

definition handleDragEnd :: "Assessment \<Rightarrow> string \<Rightarrow> string option \<Rightarrow> Assessment option" where
  "handleDragEnd assessment active over =
     (case over of
        None \<Rightarrow> None
      | Some overId \<Rightarrow>
          if active = overId then None
          else Some (reorderItems assessment active overId))"

section \<open>The sidebar (BuilderSidebar.tsx)\<close>

text \<open>
  \<open>defaultProps\<close> is declared as a \<open>Partial<Question>\<close>; every entry of the table
  \<open>questionTypes\<close>, the only values the sidebar passes, gives \<open>type\<close>, \<open>title\<close> and
  \<open>required\<close> and at most \<open>options\<close> and \<open>placeholder\<close> besides.
\<close>

record DefaultProps =
  d_type :: QuestionType
  d_title :: string
  d_required :: bool
  d_options :: "string list option"
  d_placeholder :: "string option"

record QuestionTypeConfig =
  c_type :: QuestionType
  c_label :: string
  c_description :: string
  c_icon :: string
  defaultProps :: DefaultProps

definition questionTypes :: "QuestionTypeConfig list" where
  "questionTypes =
     [\<lparr>c_type = SingleChoice, c_label = ''Single Choice'',
       c_description = ''Radio buttons for single selection'', c_icon = ''Circle'',
       defaultProps = \<lparr>d_type = SingleChoice, d_title = ''New Single Choice Question'',
         d_required = False, d_options = Some [''Option 1'', ''Option 2'', ''Option 3''],
         d_placeholder = None\<rparr>\<rparr>,
      \<lparr>c_type = MultiChoice, c_label = ''Multiple Choice'',
       c_description = ''Checkboxes for multiple selections'', c_icon = ''CheckCircle'',
       defaultProps = \<lparr>d_type = MultiChoice, d_title = ''New Multiple Choice Question'',
         d_required = False, d_options = Some [''Option 1'', ''Option 2'', ''Option 3''],
         d_placeholder = None\<rparr>\<rparr>,
      \<lparr>c_type = ShortText, c_label = ''Short Text'',
       c_description = ''Single line text input'', c_icon = ''Type'',
       defaultProps = \<lparr>d_type = ShortText, d_title = ''New Short Text Question'',
         d_required = False, d_options = None,
         d_placeholder = Some ''Enter your answer...''\<rparr>\<rparr>,
      \<lparr>c_type = LongText, c_label = ''Long Text'',
       c_description = ''Multi-line text area'', c_icon = ''FileText'',
       defaultProps = \<lparr>d_type = LongText, d_title = ''New Long Text Question'',
         d_required = False, d_options = None,
         d_placeholder = Some ''Enter your detailed answer...''\<rparr>\<rparr>,
      \<lparr>c_type = Numeric, c_label = ''Numeric'',
       c_description = ''Number input with validation'', c_icon = ''Hash'',
       defaultProps = \<lparr>d_type = Numeric, d_title = ''New Numeric Question'',
         d_required = False, d_options = None,
         d_placeholder = Some ''Enter a number...''\<rparr>\<rparr>,
      \<lparr>c_type = FileUpload, c_label = ''File Upload'',
       c_description = ''File attachment input'', c_icon = ''Upload'',
       defaultProps = \<lparr>d_type = FileUpload, d_title = ''New File Upload Question'',
         d_required = False, d_options = None, d_placeholder = None\<rparr>\<rparr>]"

text \<open>
  The constant \<open>newQuestion\<close> of the sidebar's \<open>addQuestion\<close>:
  \<open>{ id, ...defaultProps, order: 0 }\<close>.
\<close>

definition newQuestion :: "string \<Rightarrow> QuestionTypeConfig \<Rightarrow> Question" where
  "newQuestion stamp questionType =
     \<lparr>q_id = ''question-'' @ stamp,
      q_type = d_type (defaultProps questionType),
      q_title = d_title (defaultProps questionType),
      q_description = None,
      q_required = d_required (defaultProps questionType),
      q_order = 0,
      q_validation = None, q_conditional = None,
      q_options = d_options (defaultProps questionType),
      q_placeholder = d_placeholder (defaultProps questionType)\<rparr>"

text \<open>
  \<open>addQuestion\<close> of the sidebar closes over the prop \<open>assessment\<close>. The order of
  the new question is overwritten with the question count of the section that
  receives it.
\<close>

definition BuilderSidebar_addQuestion ::
  "string \<Rightarrow> Assessment \<Rightarrow> string \<Rightarrow> QuestionTypeConfig \<Rightarrow> Assessment" where
  "BuilderSidebar_addQuestion stamp assessment sectionId questionType =
     assessment\<lparr>a_sections :=
       map (\<lambda>section.
              if s_id section = sectionId
              then section\<lparr>s_questions :=
                     s_questions section @
                       [(newQuestion stamp questionType)
                          \<lparr>q_order := length (s_questions section)\<rparr>]\<rparr>
              else section)
         (a_sections assessment)\<rparr>"

text \<open>
  The click handler of a question-type button. It returns the assessments handed to
  \<open>onUpdateAssessment\<close>, in order. Without sections it hands over a default section
  and starts a timer of 100 ms whose callback calls \<open>addQuestion\<close>; that \<open>addQuestion\<close>
  is the closure of the render in which the click happened, so the \<open>assessment\<close> it
  maps over and spreads is the one the handler saw, not the one holding the new
  section. \<open>stamp\<close> and \<open>stamp'\<close> are the texts of \<open>Date.now()\<close> at the click and in
  the callback.
\<close>

definition questionTypeButton_onClick ::
  "string \<Rightarrow> string \<Rightarrow> Assessment \<Rightarrow> QuestionTypeConfig \<Rightarrow> Assessment list" where
  "questionTypeButton_onClick stamp stamp' assessment questionType =
     (case a_sections assessment of
        [] \<Rightarrow>
          (let newSection =
                 \<lparr>s_id = ''section-'' @ stamp, s_title = ''Section 1'', s_description = Some [],
                  s_order = 0, s_questions = [], s_isExpanded = Some True\<rparr>
           in [assessment\<lparr>a_sections := [newSection]\<rparr>,
               BuilderSidebar_addQuestion stamp' assessment (s_id newSection) questionType])
      | first # _ \<Rightarrow>
          [BuilderSidebar_addQuestion stamp assessment (s_id first) questionType])"

text \<open>A \<open>Partial<Question>\<close>.\<close>

record QuestionPartial =
  qp_id :: "string option"
  qp_type :: "QuestionType option"
  qp_title :: "string option"
  qp_description :: "string option option"
  qp_required :: "bool option"
  qp_order :: "nat option"
  qp_validation :: "ValidationRule option option"
  qp_conditional :: "ConditionalLogic option option"
  qp_options :: "string list option option"
  qp_placeholder :: "string option option"

definition spread_question :: "Question \<Rightarrow> QuestionPartial \<Rightarrow> Question" where
  "spread_question q updates =
     \<lparr>q_id = (case qp_id updates of Some x \<Rightarrow> x | None \<Rightarrow> q_id q),
      q_type = (case qp_type updates of Some x \<Rightarrow> x | None \<Rightarrow> q_type q),
      q_title = (case qp_title updates of Some x \<Rightarrow> x | None \<Rightarrow> q_title q),
      q_description = (case qp_description updates of Some x \<Rightarrow> x | None \<Rightarrow> q_description q),
      q_required = (case qp_required updates of Some x \<Rightarrow> x | None \<Rightarrow> q_required q),
      q_order = (case qp_order updates of Some x \<Rightarrow> x | None \<Rightarrow> q_order q),
      q_validation = (case qp_validation updates of Some x \<Rightarrow> x | None \<Rightarrow> q_validation q),
      q_conditional = (case qp_conditional updates of Some x \<Rightarrow> x | None \<Rightarrow> q_conditional q),
      q_options = (case qp_options updates of Some x \<Rightarrow> x | None \<Rightarrow> q_options q),
      q_placeholder = (case qp_placeholder updates of Some x \<Rightarrow> x | None \<Rightarrow> q_placeholder q)\<rparr>"

definition BuilderSidebar_updateQuestion ::
  "Assessment \<Rightarrow> string \<Rightarrow> QuestionPartial \<Rightarrow> Assessment" where
  "BuilderSidebar_updateQuestion assessment questionId updates =
     assessment\<lparr>a_sections :=
       map (\<lambda>section. section\<lparr>s_questions :=
              map (\<lambda>question. if q_id question = questionId
                               then spread_question question updates else question)
                (s_questions section)\<rparr>)
         (a_sections assessment)\<rparr>"

section \<open>Editing sessions\<close>

text \<open>
  An editing event is one click or drop in the builder. A SectionBuilder exists for
  every position of \<open>assessment.sections\<close>, so its buttons are addressed by that
  position; the fields of an event are the clock and random texts its handler reads.
\<close>

datatype event =
    AddSection string
  | DeleteSection nat
  | DuplicateSection nat string "nat \<Rightarrow> string"
  | AddQuestion nat string
  | DeleteQuestion nat string
  | AddTypedQuestion string string QuestionTypeConfig
  | Reorder string "string option"

text \<open>The assessments that the handler of an event hands to \<open>onUpdateAssessment\<close>.\<close>

fun handed_over :: "event \<Rightarrow> Assessment \<Rightarrow> Assessment list" where
  "handed_over (AddSection stamp) a = [addSection stamp a]"
| "handed_over (DeleteSection i) a =
     (if i < length (a_sections a) then [deleteSection (a_sections a ! i) a] else [])"
| "handed_over (DuplicateSection i stamp qstamp) a =
     (if i < length (a_sections a)
      then [duplicateSection stamp qstamp (a_sections a ! i) a] else [])"
| "handed_over (AddQuestion i stamp) a =
     (if i < length (a_sections a)
      then [SectionBuilder_addQuestion stamp (a_sections a ! i) a] else [])"
| "handed_over (DeleteQuestion i questionId) a =
     (if i < length (a_sections a)
      then [fst (deleteQuestion questionId (a_sections a ! i) a None)] else [])"
| "handed_over (AddTypedQuestion stamp stamp' questionType) a =
     questionTypeButton_onClick stamp stamp' a questionType"
| "handed_over (Reorder active over) a =
     (case handleDragEnd a active over of None \<Rightarrow> [] | Some a' \<Rightarrow> [a'])"

text \<open>
  \<open>onUpdateAssessment\<close> is \<open>updateAssessment\<close> of the hook (pages/Index.tsx), which
  replaces the state; \<open>clock k\<close> is the value of \<open>new Date()\<close> in its \<open>k\<close>-th call
  during the event.
\<close>

fun commit_all :: "(nat \<Rightarrow> jsdate) \<Rightarrow> nat \<Rightarrow> Assessment list \<Rightarrow> Assessment \<Rightarrow> Assessment" where
  "commit_all clock k [] state = state"
| "commit_all clock k (new # rest) state =
     commit_all clock (Suc k) rest (updateAssessment (clock k) new)"

definition perform :: "(nat \<Rightarrow> jsdate) \<times> event \<Rightarrow> Assessment \<Rightarrow> Assessment" where
  "perform ce a = commit_all (fst ce) 0 (handed_over (snd ce) a) a"

fun run :: "((nat \<Rightarrow> jsdate) \<times> event) list \<Rightarrow> Assessment \<Rightarrow> Assessment" where
  "run [] a = a"
| "run (ce # rest) a = run rest (perform ce a)"

fun is_delete :: "event \<Rightarrow> bool" where
  "is_delete (DeleteSection i) = True"
| "is_delete (DeleteQuestion i questionId) = True"
| "is_delete _ = False"

fun not_delete :: "(nat \<Rightarrow> jsdate) \<times> event \<Rightarrow> bool" where
  "not_delete (clock, e) = (\<not> is_delete e)"

text \<open>
  The ordering invariant of the data model: \<open>sections[i].order == i\<close>, and
  \<open>questions[i].order == i\<close> within every section.
\<close>

definition questions_ordered :: "Section \<Rightarrow> bool" where
  "questions_ordered s = (map q_order (s_questions s) = [0..<length (s_questions s)])"

definition well_ordered :: "Assessment \<Rightarrow> bool" where
  "well_ordered a =
     (map s_order (a_sections a) = [0..<length (a_sections a)] \<and>
      list_all questions_ordered (a_sections a))"

text \<open>
  The positions of a list whose elements satisfy \<open>keep\<close>, in increasing order: what
  is left of the positions after the other elements are deleted.
\<close>

definition surviving :: "('a \<Rightarrow> bool) \<Rightarrow> 'a list \<Rightarrow> nat list" where
  "surviving keep xs = filter (\<lambda>j. keep (xs ! j)) [0..<length xs]"

section \<open>Instances of the built-in parameters\<close>

text \<open>
  Concrete inputs are evaluated with these instances of the parameters. They agree
  with JavaScript on the inputs named: \<open>Number_digits\<close> on \<open>undefined\<close> (NaN), on the
  empty string and the empty array (0) and on strings of decimal digits;
  \<open>numString_nat\<close> on non-negative integral numbers (below \<open>1e21\<close>); \<open>newDate_iso\<close> on
  the two strings it compares with.
\<close>

definition digit_value :: "char \<Rightarrow> nat option" where
  "digit_value c = map_of (zip ''0123456789'' [0, 1, 2, 3, 4, 5, 6, 7, 8, 9]) c"

fun parse_digits :: "nat \<Rightarrow> string \<Rightarrow> nat option" where
  "parse_digits acc [] = Some acc"
| "parse_digits acc (c # cs) =
     (case digit_value c of None \<Rightarrow> None | Some d \<Rightarrow> parse_digits (10 * acc + d) cs)"

definition Number_digits :: "answer option \<Rightarrow> jsnumber option" where
  "Number_digits val =
     (case val of
        None \<Rightarrow> None
      | Some (Str s) \<Rightarrow> map_option of_nat (parse_digits 0 s)
      | Some (Arr xs) \<Rightarrow> map_option of_nat (parse_digits 0 (join '','' xs)))"

function show_nat :: "nat \<Rightarrow> string" where
  "show_nat n =
     (if n < 10 then [''0123456789'' ! n]
      else show_nat (n div 10) @ [''0123456789'' ! (n mod 10)])"
  by pat_completeness auto
termination
  by (relation "measure id") auto

definition numString_nat :: "jsnumber \<Rightarrow> string" where
  "numString_nat r =
     (if 0 \<le> r \<and> r = of_int (floor r) then show_nat (nat (floor r)) else ''NaN'')"

definition newDate_iso :: "string \<Rightarrow> jsdate" where
  "newDate_iso text =
     (if text = ''2024-01-01T00:00:00.000Z'' then DateAt 1704067200000
      else if text = ''1970-01-01T00:00:00.000Z'' then DateAt 0
      else InvalidDate)"

definition clock_ms :: "nat \<Rightarrow> jsdate" where
  "clock_ms k = DateAt (1704067200000 + int k)"

section \<open>Example inputs\<close>

definition plain_section :: "string \<Rightarrow> nat \<Rightarrow> Question list \<Rightarrow> Section" where
  "plain_section sid ord qs =
     \<lparr>s_id = sid, s_title = sid, s_description = None, s_order = ord,
      s_questions = qs, s_isExpanded = Some True\<rparr>"

definition plain_question :: "string \<Rightarrow> QuestionType \<Rightarrow> bool \<Rightarrow> nat \<Rightarrow> Question" where
  "plain_question qid ty req ord =
     \<lparr>q_id = qid, q_type = ty, q_title = qid, q_description = None, q_required = req,
      q_order = ord, q_validation = None, q_conditional = None, q_options = None,
      q_placeholder = None\<rparr>"

definition plain_assessment :: "Section list \<Rightarrow> Assessment" where
  "plain_assessment secs =
     \<lparr>a_id = ''assessment-1'', a_jobId = [], a_title = ''New Assessment'',
      a_description = [], a_sections = secs,
      a_createdAt = DateAt 0, a_updatedAt = DateAt 0\<rparr>"

text \<open>The reorder scenario: sections A, B, C with orders 0, 1, 2.\<close>

definition abc_assessment :: Assessment where
  "abc_assessment =
     plain_assessment
       [plain_section ''A'' 0 [], plain_section ''B'' 1 [], plain_section ''C'' 2 []]"

text \<open>
  The visibility scenario: Q2 is required and shown only when the answer to Q1 is
  "yes".
\<close>

definition q2_depends_on_q1 :: Question where
  "q2_depends_on_q1 =
     (plain_question ''Q2'' ShortText True 1)
       \<lparr>q_conditional :=
          Some \<lparr>dependsOn = ''Q1'', condition = Equals, c_value = CStr ''yes''\<rparr>\<rparr>"

definition conditional_assessment :: Assessment where
  "conditional_assessment =
     plain_assessment
       [plain_section ''S1'' 0 [plain_question ''Q1'' SingleChoice False 0, q2_depends_on_q1]]"

text \<open>The same section followed by an empty second section.\<close>

definition two_section_assessment :: Assessment where
  "two_section_assessment =
     plain_assessment
       [plain_section ''S1'' 0 [plain_question ''Q1'' SingleChoice False 0, q2_depends_on_q1],
        plain_section ''S2'' 1 []]"

definition fresh_preview :: Preview where
  "fresh_preview =
     \<lparr>responses = [], currentSectionIndex = 0, isTestMode = True, validationErrors = []\<rparr>"

text \<open>An optional short-text question with a minimum length of 5.\<close>

definition optional_min5 :: Question where
  "optional_min5 =
     (plain_question ''Q1'' ShortText False 0)
       \<lparr>q_validation :=
          Some \<lparr>minLength = Some 5, maxLength = None, minValue = None, maxValue = None,
                pattern = None, v_required = None\<rparr>\<rparr>"

text \<open>A question shown when the answer to "question-frameworks" contains "Rea".\<close>

definition contains_rea :: ConditionalLogic where
  "contains_rea =
     \<lparr>dependsOn = ''question-frameworks'', condition = Contains, c_value = CStr ''Rea''\<rparr>"

text \<open>A stored assessment whose two timestamps are not dates.\<close>

definition stored_blob :: ParsedAssessment where
  "stored_blob =
     \<lparr>p_id = ''assessment-1'', p_jobId = [], p_title = ''New Assessment'',
      p_description = [], p_sections = [],
      p_createdAt = ''not-a-date'', p_updatedAt = ''yesterday-ish''\<rparr>"

definition JSON_parse_stored :: "string \<Rightarrow> ParsedAssessment option" where
  "JSON_parse_stored text = (if text = ''{stored}'' then Some stored_blob else None)"

section \<open>Auxiliary facts\<close>

lemma foldl_add_length:
  "foldl (\<lambda>acc section. acc + length (s_questions section)) k secs =
     k + sum_list (map (\<lambda>s. length (s_questions s)) secs)"
  by (induction secs arbitrary: k) simp_all

lemma Object_keys_card: "length (Object_keys obj) = card (dom (obj_get obj))"
proof -
  have "obj_get obj = map_of obj"
    by (simp add: fun_eq_iff obj_get_def)
  then have "dom (obj_get obj) = set (map fst obj)"
    by (simp add: dom_map_of_conv_image_fst)
  then show ?thesis
    by (simp add: Object_keys_def length_remdups_card_conv)
qed

lemma updateQuestion_questions_unchanged:
  "questionId \<notin> set (map q_id qs) \<Longrightarrow>
     map (\<lambda>question. if q_id question = questionId
                      then spread_question question updates else question) qs = qs"
  by (induction qs) auto

lemma updateQuestion_sections_unchanged:
  "questionId \<notin> set (map q_id (concat (map s_questions secs))) \<Longrightarrow>
     map (\<lambda>section. section\<lparr>s_questions :=
            map (\<lambda>question. if q_id question = questionId
                             then spread_question question updates else question)
              (s_questions section)\<rparr>) secs = secs"
proof (induction secs)
  case Nil
  then show ?case by simp
next
  case (Cons s secs)
  then have "questionId \<notin> set (map q_id (s_questions s))" by auto
  then show ?case using Cons by (simp add: updateQuestion_questions_unchanged)
qed

lemma is_prefix_iff: "is_prefix p s \<longleftrightarrow> (\<exists>w. s = p @ w)"
  by (induction p s rule: is_prefix.induct) auto

lemma str_includes_iff: "str_includes s p \<longleftrightarrow> (\<exists>u w. s = u @ p @ w)"
proof (induction s)
  case Nil
  then show ?case by simp
next
  case (Cons c s)
  show ?case
  proof
    assume "str_includes (c # s) p"
    then consider "is_prefix p (c # s)" | "str_includes s p" by auto
    then show "\<exists>u w. c # s = u @ p @ w"
    proof cases
      case 1
      then obtain w where "c # s = p @ w" by (auto simp: is_prefix_iff)
      then have "c # s = [] @ p @ w" by simp
      then show ?thesis by blast
    next
      case 2
      then obtain u w where "s = u @ p @ w" using Cons.IH by auto
      then have "c # s = (c # u) @ p @ w" by simp
      then show ?thesis by blast
    qed
  next
    assume "\<exists>u w. c # s = u @ p @ w"
    then obtain u w where uw: "c # s = u @ p @ w" by auto
    show "str_includes (c # s) p"
    proof (cases u)
      case Nil
      then have "c # s = p @ w" using uw by simp
      then have "is_prefix p (c # s)" unfolding is_prefix_iff by blast
      then show ?thesis by simp
    next
      case (Cons d u')
      then have "s = u' @ p @ w" using uw by simp
      then show ?thesis using Cons.IH by auto
    qed
  qed
qed

lemma join_member: "x \<in> set xs \<Longrightarrow> \<exists>u w. join sep xs = u @ x @ w"
proof (induction sep xs rule: join.induct)
  case (1 sep)
  then show ?case by simp
next
  case (2 sep y)
  then have "join sep [y] = [] @ x @ []" by simp
  then show ?case by blast
next
  case (3 sep y z zs)
  show ?case
  proof (cases "x = y")
    case True
    then have "join sep (y # z # zs) = [] @ x @ (sep @ join sep (z # zs))" by simp
    then show ?thesis by blast
  next
    case False
    then have "x \<in> set (z # zs)" using 3 by auto
    then obtain u w where "join sep (z # zs) = u @ x @ w" using 3 by blast
    then have "join sep (y # z # zs) = (y @ sep @ u) @ x @ w" by simp
    then show ?thesis by blast
  qed
qed

lemma well_ordered_updateAssessment:
  "well_ordered (updateAssessment now a) = well_ordered a"
  by (simp add: well_ordered_def updateAssessment_def)

lemma well_ordered_addSection:
  "well_ordered a \<Longrightarrow> well_ordered (addSection stamp a)"
  by (simp add: well_ordered_def addSection_def questions_ordered_def)

lemma renamed_questions_order:
  fixes qs :: "Question list"
  shows "map (q_order \<circ> (\<lambda>(i, q). q\<lparr>q_id := f i\<rparr>)) (zip [0..<length qs] qs) = map q_order qs"
proof -
  have a: "map (q_order \<circ> (\<lambda>(i, q). q\<lparr>q_id := f i\<rparr>)) zs = map q_order (map snd zs)"
    for zs :: "(nat \<times> Question) list"
    by (induction zs) auto
  have b: "map snd (zip [0..<length qs] qs) = qs"
    by (rule map_snd_zip) simp
  show ?thesis
    unfolding a b by (rule refl)
qed

lemma well_ordered_duplicateSection:
  assumes "well_ordered a" and "section \<in> set (a_sections a)"
  shows "well_ordered (duplicateSection stamp qstamp section a)"
proof -
  have "questions_ordered section"
    using assms by (auto simp: well_ordered_def list_all_iff)
  then show ?thesis
    using assms(1)
    by (simp add: well_ordered_def duplicateSection_def questions_ordered_def
        renamed_questions_order)
qed

lemma spread_questions_only:
  "spread_section s (no_section_updates\<lparr>sp_questions := Some qs\<rparr>) = s\<lparr>s_questions := qs\<rparr>"
  by (simp add: spread_section_def no_section_updates_def)

lemma well_ordered_map_sections:
  assumes "well_ordered a"
    and "\<And>s. s_order (f s) = s_order s"
    and "\<And>s. questions_ordered s \<Longrightarrow> questions_ordered (f s)"
  shows "well_ordered (a\<lparr>a_sections := map f (a_sections a)\<rparr>)"
  using assms by (auto simp: well_ordered_def list_all_iff comp_def)

lemma well_ordered_replace_questions:
  assumes "well_ordered a" and "map q_order qs = [0..<length qs]"
  shows "well_ordered (updateSection section a (no_section_updates\<lparr>sp_questions := Some qs\<rparr>))"
  unfolding updateSection_def
  by (rule well_ordered_map_sections [OF assms(1)])
    (simp_all add: spread_questions_only questions_ordered_def assms(2))

lemma well_ordered_SectionBuilder_addQuestion:
  assumes "well_ordered a" and "section \<in> set (a_sections a)"
  shows "well_ordered (SectionBuilder_addQuestion stamp section a)"
proof -
  have "questions_ordered section"
    using assms by (auto simp: well_ordered_def list_all_iff)
  then show ?thesis
    unfolding SectionBuilder_addQuestion_def Let_def
    by (intro well_ordered_replace_questions assms(1)) (simp add: questions_ordered_def)
qed

lemma well_ordered_BuilderSidebar_addQuestion:
  assumes "well_ordered a"
  shows "well_ordered (BuilderSidebar_addQuestion stamp a sectionId questionType)"
  unfolding BuilderSidebar_addQuestion_def
  by (rule well_ordered_map_sections [OF assms]) (simp_all add: questions_ordered_def)

lemma well_ordered_questionTypeButton_onClick:
  assumes "well_ordered a"
  shows "list_all well_ordered (questionTypeButton_onClick stamp stamp' a questionType)"
proof (cases "a_sections a")
  case Nil
  have "well_ordered (a\<lparr>a_sections :=
          [\<lparr>s_id = ''section-'' @ stamp, s_title = ''Section 1'', s_description = Some [],
            s_order = 0, s_questions = [], s_isExpanded = Some True\<rparr>]\<rparr>)"
    by (simp add: well_ordered_def questions_ordered_def)
  then show ?thesis
    using Nil assms
    by (simp add: questionTypeButton_onClick_def well_ordered_BuilderSidebar_addQuestion)
next
  case (Cons first rest)
  then show ?thesis
    using assms
    by (simp add: questionTypeButton_onClick_def well_ordered_BuilderSidebar_addQuestion)
qed

lemma well_ordered_handed_over:
  assumes "well_ordered a" and "\<not> is_delete e"
  shows "list_all well_ordered (handed_over e a)"
proof (cases e)
  case (AddSection stamp)
  then show ?thesis using assms by (simp add: well_ordered_addSection)
next
  case (DeleteSection i)
  then show ?thesis using assms by simp
next
  case (DuplicateSection i stamp qstamp)
  then show ?thesis using assms by (simp add: well_ordered_duplicateSection)
next
  case (AddQuestion i stamp)
  then show ?thesis using assms by (simp add: well_ordered_SectionBuilder_addQuestion)
next
  case (DeleteQuestion i questionId)
  then show ?thesis using assms by simp
next
  case (AddTypedQuestion stamp stamp' questionType)
  then show ?thesis using assms by (simp add: well_ordered_questionTypeButton_onClick)
next
  case (Reorder active over)
  then show ?thesis
    using assms by (simp add: handleDragEnd_def reorderItems_def split: option.splits)
qed

lemma well_ordered_commit_all:
  "list_all well_ordered news \<Longrightarrow> well_ordered state \<Longrightarrow>
     well_ordered (commit_all clock k news state)"
  by (induction news arbitrary: k state) (simp_all add: well_ordered_updateAssessment)

lemma well_ordered_perform:
  "well_ordered a \<Longrightarrow> not_delete ce \<Longrightarrow> well_ordered (perform ce a)"
  by (cases ce) (simp add: perform_def well_ordered_commit_all well_ordered_handed_over)

lemma well_ordered_run:
  "well_ordered a \<Longrightarrow> list_all not_delete events \<Longrightarrow> well_ordered (run events a)"
  by (induction events arbitrary: a) (simp_all add: well_ordered_perform)

lemma deleteQuestion_at_position:
  assumes "i < length (a_sections a)"
  shows "s_questions (a_sections (fst (deleteQuestion questionId (a_sections a ! i) a sel)) ! i)
           = filter (\<lambda>q. q_id q \<noteq> questionId) (s_questions (a_sections a ! i))"
  using assms by (simp add: deleteQuestion_def updateSection_def spread_questions_only)

lemma surviving_snoc:
  "surviving keep (xs @ [x]) = surviving keep xs @ (if keep x then [length xs] else [])"
proof -
  have "filter (\<lambda>j. keep ((xs @ [x]) ! j)) [0..<length xs]
      = filter (\<lambda>j. keep (xs ! j)) [0..<length xs]"
    by (rule filter_cong) (simp_all add: nth_append)
  then show ?thesis by (simp add: surviving_def)
qed

lemma surviving_bound: "j \<in> set (surviving keep xs) \<Longrightarrow> j < length xs"
  by (simp add: surviving_def)

lemma filter_by_position: "filter keep xs = map (nth xs) (surviving keep xs)"
proof (induction xs rule: rev_induct)
  case Nil
  then show ?case by (simp add: surviving_def)
next
  case (snoc x xs)
  have "map (nth (xs @ [x])) (surviving keep xs) = map (nth xs) (surviving keep xs)"
    by (rule map_cong) (auto simp: nth_append dest: surviving_bound)
  then show ?case using snoc by (simp add: surviving_snoc)
qed

lemma orders_of_survivors:
  assumes "map f xs = [0..<length xs]"
  shows "map f (filter keep xs) = surviving keep xs"
proof -
  have pos: "f (xs ! j) = j" if "j < length xs" for j
  proof -
    have "map f xs ! j = [0..<length xs] ! j" using assms by simp
    then show ?thesis using that by simp
  qed
  have "map f (map (nth xs) (surviving keep xs)) = map (\<lambda>j. j) (surviving keep xs)"
    unfolding map_map by (rule map_cong) (auto simp: pos dest: surviving_bound)
  then show ?thesis by (simp add: filter_by_position [of keep xs])
qed

lemma gap_breaks_contiguity:
  assumes "i < j" and "j < length xs" and "\<not> keep (xs ! i)" and "keep (xs ! j)"
  shows "surviving keep xs \<noteq> [0..<m]"
proof
  assume eq: "surviving keep xs = [0..<m]"
  have "j \<in> set (surviving keep xs)" using assms by (simp add: surviving_def)
  then have "j < m" using eq by simp
  then have "i \<in> set [0..<m]" using assms(1) by simp
  then have "i \<in> set (surviving keep xs)" using eq by simp
  then show False using assms(3) by (simp add: surviving_def)
qed

lemma deleteSection_not_contiguous:
  assumes "well_ordered a" and "i < j" and "j < length (a_sections a)"
    and "s_id (a_sections a ! i) = s_id section" and "s_id (a_sections a ! j) \<noteq> s_id section"
  shows "\<not> well_ordered (deleteSection section a)"
proof
  assume w: "well_ordered (deleteSection section a)"
  have "map s_order (a_sections (deleteSection section a))
      = surviving (\<lambda>s. s_id s \<noteq> s_id section) (a_sections a)"
    using assms(1) by (simp add: deleteSection_def well_ordered_def orders_of_survivors)
  moreover have "map s_order (a_sections (deleteSection section a))
      = [0..<length (a_sections (deleteSection section a))]"
    using w by (simp add: well_ordered_def)
  ultimately have "surviving (\<lambda>s. s_id s \<noteq> s_id section) (a_sections a)
      = [0..<length (a_sections (deleteSection section a))]"
    by simp
  moreover have "surviving (\<lambda>s. s_id s \<noteq> s_id section) (a_sections a)
      \<noteq> [0..<length (a_sections (deleteSection section a))]"
    by (rule gap_breaks_contiguity [of i j]) (use assms in simp_all)
  ultimately show False by blast
qed

lemma deleteQuestion_sections:
  "a_sections (fst (deleteQuestion questionId sec a sel))
     = map (\<lambda>s. if s_id s = s_id sec
                 then s\<lparr>s_questions := filter (\<lambda>q. q_id q \<noteq> questionId) (s_questions sec)\<rparr>
                 else s) (a_sections a)"
  by (simp add: deleteQuestion_def updateSection_def spread_questions_only cong: if_cong)

lemma deleteQuestion_section_orders:
  "map s_order (a_sections (fst (deleteQuestion questionId sec a sel)))
     = map s_order (a_sections a)"
  unfolding deleteQuestion_sections by (induction "a_sections a" arbitrary: a) auto


lemma deleteQuestion_not_contiguous:
  assumes "well_ordered a" and "p < length (a_sections a)"
    and "k < l" and "l < length (s_questions (a_sections a ! p))"
    and "q_id (s_questions (a_sections a ! p) ! k) = questionId"
    and "q_id (s_questions (a_sections a ! p) ! l) \<noteq> questionId"
  shows "\<not> well_ordered (fst (deleteQuestion questionId (a_sections a ! p) a sel))"
proof
  let ?qs = "s_questions (a_sections a ! p)"
  let ?a' = "fst (deleteQuestion questionId (a_sections a ! p) a sel)"
  assume w: "well_ordered ?a'"
  have len: "p < length (a_sections ?a')"
    using assms(2) by (simp add: deleteQuestion_sections)
  have "questions_ordered (a_sections ?a' ! p)"
    using w len by (auto simp: well_ordered_def list_all_iff)
  then have c: "map q_order (filter (\<lambda>q. q_id q \<noteq> questionId) ?qs)
      = [0..<length (filter (\<lambda>q. q_id q \<noteq> questionId) ?qs)]"
    by (simp add: questions_ordered_def deleteQuestion_at_position [OF assms(2)])
  have "questions_ordered (a_sections a ! p)"
    using assms(1,2) by (auto simp: well_ordered_def list_all_iff)
  then have "map q_order (filter (\<lambda>q. q_id q \<noteq> questionId) ?qs)
      = surviving (\<lambda>q. q_id q \<noteq> questionId) ?qs"
    by (simp add: questions_ordered_def orders_of_survivors)
  with c have "surviving (\<lambda>q. q_id q \<noteq> questionId) ?qs
      = [0..<length (filter (\<lambda>q. q_id q \<noteq> questionId) ?qs)]"
    by simp
  moreover have "surviving (\<lambda>q. q_id q \<noteq> questionId) ?qs
      \<noteq> [0..<length (filter (\<lambda>q. q_id q \<noteq> questionId) ?qs)]"
    by (rule gap_breaks_contiguity [of k l]) (use assms in simp_all)
  ultimately show False by blast
qed

lemma BuilderSidebar_addQuestion_appends:
  assumes "i < length (a_sections a)" and "s_id (a_sections a ! i) = sectionId"
  shows "s_questions (a_sections (BuilderSidebar_addQuestion stamp a sectionId questionType) ! i)
           = s_questions (a_sections a ! i) @
               [(newQuestion stamp questionType)
                  \<lparr>q_order := length (s_questions (a_sections a ! i))\<rparr>]"
  using assms by (simp add: BuilderSidebar_addQuestion_def)

section \<open>The ordering invariant (C1)\<close>

text \<open>
  C1, as the code has it. From an assessment in which every \<open>order\<close> is the
  zero-based position, every sequence of events without a deletion (adding a section,
  duplicating one, adding a question from the section or from a sidebar template, a
  drop) ends in such an assessment again. \<open>deleteSection\<close> and \<open>deleteQuestion\<close>
  remove and do not renumber. After \<open>deleteSection\<close> the sections are exactly those
  with another id, in their old sequence, and their orders are their positions before
  the deletion; when a section with another id stood behind a deleted one the
  invariant is lost. After \<open>deleteQuestion\<close> in the section at position \<open>p\<close> the
  same holds for the questions of that section, and no section changes its order.
\<close>

theorem order_kept_until_delete:
  assumes "well_ordered a"
  shows "(list_all not_delete events \<longrightarrow> well_ordered (run events a))
       \<and> a_sections (deleteSection section a)
           = map (nth (a_sections a)) (surviving (\<lambda>s. s_id s \<noteq> s_id section) (a_sections a))
       \<and> map s_order (a_sections (deleteSection section a))
           = surviving (\<lambda>s. s_id s \<noteq> s_id section) (a_sections a)
       \<and> (i < j \<and> j < length (a_sections a) \<and> s_id (a_sections a ! i) = s_id section
            \<and> s_id (a_sections a ! j) \<noteq> s_id section \<longrightarrow>
            \<not> well_ordered (deleteSection section a))
       \<and> (p < length (a_sections a) \<longrightarrow>
            s_questions (a_sections (fst (deleteQuestion questionId (a_sections a ! p) a sel)) ! p)
              = map (nth (s_questions (a_sections a ! p)))
                  (surviving (\<lambda>q. q_id q \<noteq> questionId) (s_questions (a_sections a ! p)))
            \<and> map q_order
                (s_questions (a_sections (fst (deleteQuestion questionId (a_sections a ! p) a sel)) ! p))
              = surviving (\<lambda>q. q_id q \<noteq> questionId) (s_questions (a_sections a ! p))
            \<and> map s_order (a_sections (fst (deleteQuestion questionId (a_sections a ! p) a sel)))
              = map s_order (a_sections a)
            \<and> (k < l \<and> l < length (s_questions (a_sections a ! p))
                 \<and> q_id (s_questions (a_sections a ! p) ! k) = questionId
                 \<and> q_id (s_questions (a_sections a ! p) ! l) \<noteq> questionId \<longrightarrow>
                 \<not> well_ordered (fst (deleteQuestion questionId (a_sections a ! p) a sel))))"
proof -
  have A: "list_all not_delete events \<longrightarrow> well_ordered (run events a)"
    using assms by (simp add: well_ordered_run)
  have B: "a_sections (deleteSection section a)
      = map (nth (a_sections a)) (surviving (\<lambda>s. s_id s \<noteq> s_id section) (a_sections a))"
    by (simp add: deleteSection_def filter_by_position)
  have C: "map s_order (a_sections (deleteSection section a))
      = surviving (\<lambda>s. s_id s \<noteq> s_id section) (a_sections a)"
    using assms by (simp add: deleteSection_def well_ordered_def orders_of_survivors)
  have D: "i < j \<and> j < length (a_sections a) \<and> s_id (a_sections a ! i) = s_id section
            \<and> s_id (a_sections a ! j) \<noteq> s_id section \<longrightarrow>
            \<not> well_ordered (deleteSection section a)"
    using assms deleteSection_not_contiguous [of a i j "section"] by blast
  have E: "s_questions (a_sections (fst (deleteQuestion questionId (a_sections a ! p) a sel)) ! p)
              = map (nth (s_questions (a_sections a ! p)))
                  (surviving (\<lambda>q. q_id q \<noteq> questionId) (s_questions (a_sections a ! p)))"
    if "p < length (a_sections a)"
    by (simp add: deleteQuestion_at_position [OF that] filter_by_position)
  have F: "map q_order
                (s_questions (a_sections (fst (deleteQuestion questionId (a_sections a ! p) a sel)) ! p))
              = surviving (\<lambda>q. q_id q \<noteq> questionId) (s_questions (a_sections a ! p))"
    if "p < length (a_sections a)"
  proof -
    have "questions_ordered (a_sections a ! p)"
      using assms that by (auto simp: well_ordered_def list_all_iff)
    then show ?thesis
      by (simp add: deleteQuestion_at_position [OF that] questions_ordered_def orders_of_survivors)
  qed
  have G: "map s_order (a_sections (fst (deleteQuestion questionId (a_sections a ! p) a sel)))
              = map s_order (a_sections a)"
    by (rule deleteQuestion_section_orders)
  have H: "k < l \<and> l < length (s_questions (a_sections a ! p))
                 \<and> q_id (s_questions (a_sections a ! p) ! k) = questionId
                 \<and> q_id (s_questions (a_sections a ! p) ! l) \<noteq> questionId \<longrightarrow>
                 \<not> well_ordered (fst (deleteQuestion questionId (a_sections a ! p) a sel))"
    if "p < length (a_sections a)"
    using assms that deleteQuestion_not_contiguous [of a p k l questionId sel] by blast
  show ?thesis
    using A B C D E F G H by blast
qed

theorem order_kept_until_delete_witness:
  "well_ordered two_section_assessment
   \<and> list_all not_delete
        [(clock_ms, AddSection ''1''), (clock_ms, DuplicateSection 0 ''2'' show_nat),
         (clock_ms, AddQuestion 1 ''3''),
         (clock_ms, AddTypedQuestion ''4'' ''5'' (questionTypes ! 4)),
         (clock_ms, Reorder ''section-1'' (Some ''S1''))]
   \<and> (0::nat) < 1 \<and> 1 < length (a_sections two_section_assessment)
   \<and> s_id (a_sections two_section_assessment ! 0) = s_id (plain_section ''S1'' 0 [])
   \<and> s_id (a_sections two_section_assessment ! 1) \<noteq> s_id (plain_section ''S1'' 0 [])
   \<and> 0 < length (a_sections two_section_assessment)
   \<and> 1 < length (s_questions (a_sections two_section_assessment ! 0))
   \<and> q_id (s_questions (a_sections two_section_assessment ! 0) ! 0) = ''Q1''
   \<and> q_id (s_questions (a_sections two_section_assessment ! 0) ! 1) \<noteq> ''Q1''
   \<and> well_ordered (run
        [(clock_ms, AddSection ''1''), (clock_ms, DuplicateSection 0 ''2'' show_nat),
         (clock_ms, AddQuestion 1 ''3''),
         (clock_ms, AddTypedQuestion ''4'' ''5'' (questionTypes ! 4)),
         (clock_ms, Reorder ''section-1'' (Some ''S1''))] two_section_assessment)
   \<and> \<not> well_ordered (deleteSection (plain_section ''S1'' 0 []) two_section_assessment)
   \<and> \<not> well_ordered (fst (deleteQuestion ''Q1'' (a_sections two_section_assessment ! 0)
          two_section_assessment None))"
proof -
  have h: "well_ordered two_section_assessment"
    by (simp add: well_ordered_def two_section_assessment_def plain_assessment_def
        plain_section_def questions_ordered_def q2_depends_on_q1_def plain_question_def)
  have e: "list_all not_delete
        [(clock_ms, AddSection ''1''), (clock_ms, DuplicateSection 0 ''2'' show_nat),
         (clock_ms, AddQuestion 1 ''3''),
         (clock_ms, AddTypedQuestion ''4'' ''5'' (questionTypes ! 4)),
         (clock_ms, Reorder ''section-1'' (Some ''S1''))]"
    by simp
  have s: "(0::nat) < 1 \<and> 1 < length (a_sections two_section_assessment)
      \<and> s_id (a_sections two_section_assessment ! 0) = s_id (plain_section ''S1'' 0 [])
      \<and> s_id (a_sections two_section_assessment ! 1) \<noteq> s_id (plain_section ''S1'' 0 [])"
    by (simp add: two_section_assessment_def plain_assessment_def plain_section_def)
  have p: "0 < length (a_sections two_section_assessment)"
    by (simp add: two_section_assessment_def plain_assessment_def)
  have q: "(0::nat) < 1 \<and> 1 < length (s_questions (a_sections two_section_assessment ! 0))
      \<and> q_id (s_questions (a_sections two_section_assessment ! 0) ! 0) = ''Q1''
      \<and> q_id (s_questions (a_sections two_section_assessment ! 0) ! 1) \<noteq> ''Q1''"
    by (simp add: two_section_assessment_def plain_assessment_def plain_section_def
        q2_depends_on_q1_def plain_question_def)
  from order_kept_until_delete [OF h, where i = 0 and j = 1 and p = 0 and k = 0 and l = 1
      and questionId = "''Q1''" and sel = None] h e s p q
  show ?thesis by blast
qed

text \<open>
  The claim C1 as the specification words it fails: deleting section A of the sections
  A, B, C (orders 0, 1, 2) leaves B and C with the orders 1 and 2.
\<close>

theorem delete_does_not_renumber_counterexample:
  "well_ordered abc_assessment
   \<and> map s_order (a_sections (perform (clock_ms, DeleteSection 0) abc_assessment)) = [1, 2]
   \<and> \<not> well_ordered (perform (clock_ms, DeleteSection 0) abc_assessment)"
  by (simp add: well_ordered_def abc_assessment_def plain_assessment_def plain_section_def
      perform_def deleteSection_def updateAssessment_def questions_ordered_def)

section \<open>Visibility and validation (C2, C4, C5, C10)\<close>

text \<open>
  C2 at a concrete section: Q2 is required, depends on Q1 being "yes", and Q1 is
  answered "no". \<open>renderQuestion\<close> does not draw Q2, yet \<open>validateCurrentSection\<close>,
  which visits every question of the section, reports Q2 as a required field and
  returns false.
\<close>

theorem hidden_required_question_is_validated:
  "\<not> renderQuestion_visible numString_nat q2_depends_on_q1 [(''Q1'', Str ''no'')]
   \<and> validateCurrentSection Number_digits numString_nat conditional_assessment
        (fresh_preview\<lparr>responses := [(''Q1'', Str ''no'')]\<rparr>)
      = (False, fresh_preview\<lparr>responses := [(''Q1'', Str ''no'')],
                  validationErrors := [(''Q2'', ''This field is required'')]\<rparr>)"
  by (simp add: renderQuestion_visible_def q2_depends_on_q1_def plain_question_def obj_get_def
      validateCurrentSection_def currentSection_def conditional_assessment_def
      plain_assessment_def plain_section_def fresh_preview_def validateQuestion_def)

text \<open>
  C4, as the code has it. For a short-text or long-text question with a \<open>minLength\<close>:
  a filled value shorter than the minimum gives the length error whether or not the
  question is required, and for a question that is not required an empty or absent
  value is measured as the empty string, so that it gives the same length error
  whenever the minimum is positive.
\<close>

theorem min_length_measures_every_value:
  assumes "q_type q = ShortText \<or> q_type q = LongText"
    and "q_validation q = Some v"
    and "minLength v = Some lo"
  shows "(s \<noteq> [] \<and> of_nat (length s) < lo \<longrightarrow>
            validateQuestion toNumber numString q (Some (Str s))
              = Some (''Must be at least '' @ numString lo @ '' characters''))
       \<and> (\<not> q_required q \<and> falsy val \<and> 0 < lo \<longrightarrow>
            validateQuestion toNumber numString q val
              = Some (''Must be at least '' @ numString lo @ '' characters''))
       \<and> (q_required q \<and> falsy val \<longrightarrow>
            validateQuestion toNumber numString q val = Some ''This field is required'')"
proof -
  have empty: "String_or_empty val = []" if "falsy val"
    using that by (cases val rule: falsy.cases) simp_all
  show ?thesis
    using assms by (auto simp: validateQuestion_def text_bounds_def empty)
qed

theorem min_length_measures_every_value_witness:
  "(q_type optional_min5 = ShortText \<or> q_type optional_min5 = LongText)
   \<and> \<not> q_required optional_min5 \<and> falsy None
   \<and> validateQuestion Number_digits numString_nat optional_min5 (Some (Str ''abc''))
       = Some (''Must be at least '' @ numString_nat 5 @ '' characters'')
   \<and> validateQuestion Number_digits numString_nat optional_min5 None
       = Some (''Must be at least '' @ numString_nat 5 @ '' characters'')"
proof -
  have t: "q_type optional_min5 = ShortText \<or> q_type optional_min5 = LongText"
    by (simp add: optional_min5_def plain_question_def)
  have v: "q_validation optional_min5 =
             Some \<lparr>minLength = Some 5, maxLength = None, minValue = None, maxValue = None,
                   pattern = None, v_required = None\<rparr>"
    by (simp add: optional_min5_def)
  have r: "\<not> q_required optional_min5"
    by (simp add: optional_min5_def plain_question_def)
  from min_length_measures_every_value [OF t v, where s = "''abc''" and val = None
      and toNumber = Number_digits and numString = numString_nat] t r
  show ?thesis by simp
qed

text \<open>
  The claim C4 as the specification words it fails: an optional short-text question
  with a minimum length of 5 rejects the absent value and the empty string.
\<close>

theorem optional_empty_text_counterexample:
  "\<not> q_required optional_min5
   \<and> q_type optional_min5 = ShortText
   \<and> validateQuestion Number_digits numString_nat optional_min5 None
       = Some ''Must be at least 5 characters''
   \<and> validateQuestion Number_digits numString_nat optional_min5 (Some (Str []))
       = Some ''Must be at least 5 characters''"
  by (simp add: optional_min5_def plain_question_def validateQuestion_def text_bounds_def
      numString_nat_def)

text \<open>
  C5, as the code has it. With the condition \<open>contains\<close> the question is shown exactly
  when the text of \<open>conditional.value\<close> is a substring of the string form of the
  dependent answer. The string form of a list is its elements joined by commas, so a
  list that includes the value shows the question.
\<close>

theorem contains_is_substring_of_string_form:
  assumes "condition c = Contains"
  shows "(shouldShow numString c rs \<longleftrightarrow>
            (\<exists>u w. String_or_empty (obj_get rs (dependsOn c))
                     = u @ String_cvalue numString (c_value c) @ w))
       \<and> (obj_get rs (dependsOn c) = Some (Arr xs) \<longrightarrow>
            String_or_empty (obj_get rs (dependsOn c)) = join '','' xs)
       \<and> (obj_get rs (dependsOn c) = Some (Arr xs)
            \<and> String_cvalue numString (c_value c) \<in> set xs \<longrightarrow> shouldShow numString c rs)"
  using assms join_member [of "String_cvalue numString (c_value c)" xs "'',''"]
  by (auto simp: str_includes_iff)

theorem contains_is_substring_of_string_form_witness:
  "condition (contains_rea\<lparr>c_value := CStr ''React''\<rparr>) = Contains
   \<and> obj_get [(''question-frameworks'', Arr [''React'', ''Vue.js''])]
         (dependsOn (contains_rea\<lparr>c_value := CStr ''React''\<rparr>))
       = Some (Arr [''React'', ''Vue.js''])
   \<and> String_cvalue numString_nat (c_value (contains_rea\<lparr>c_value := CStr ''React''\<rparr>))
       \<in> set [''React'', ''Vue.js'']
   \<and> shouldShow numString_nat (contains_rea\<lparr>c_value := CStr ''React''\<rparr>)
         [(''question-frameworks'', Arr [''React'', ''Vue.js''])]"
proof -
  have c: "condition (contains_rea\<lparr>c_value := CStr ''React''\<rparr>) = Contains"
    by (simp add: contains_rea_def)
  have g: "obj_get [(''question-frameworks'', Arr [''React'', ''Vue.js''])]
         (dependsOn (contains_rea\<lparr>c_value := CStr ''React''\<rparr>))
       = Some (Arr [''React'', ''Vue.js''])"
    by (simp add: contains_rea_def obj_get_def)
  have m: "String_cvalue numString_nat (c_value (contains_rea\<lparr>c_value := CStr ''React''\<rparr>))
       \<in> set [''React'', ''Vue.js'']"
    by simp
  from contains_is_substring_of_string_form [OF c, of numString_nat
      "[(''question-frameworks'', Arr [''React'', ''Vue.js''])]" "[''React'', ''Vue.js'']"] c g m
  show ?thesis by blast
qed

text \<open>
  The claim C5 as the specification words it fails: the answer list React, Vue.js does
  not include "Rea", and the question that depends on it containing "Rea" is shown.
\<close>

theorem contains_counterexample:
  "condition contains_rea = Contains
   \<and> obj_get [(''question-frameworks'', Arr [''React'', ''Vue.js''])] (dependsOn contains_rea)
       = Some (Arr [''React'', ''Vue.js''])
   \<and> String_cvalue numString_nat (c_value contains_rea) \<notin> set [''React'', ''Vue.js'']
   \<and> shouldShow numString_nat contains_rea [(''question-frameworks'', Arr [''React'', ''Vue.js''])]"
  by (simp add: contains_rea_def obj_get_def)

text \<open>
  C10: a question whose conditional has the tag \<open>greater-than\<close> or \<open>less-than\<close> is
  shown whatever the responses are.
\<close>

theorem unhandled_conditions_show:
  assumes "q_conditional question = Some c"
    and "condition c = GreaterThan \<or> condition c = LessThan"
  shows "shouldShow numString c rs \<and> renderQuestion_visible numString question rs"
  using assms by (auto simp: renderQuestion_visible_def)

theorem unhandled_conditions_show_witness:
  "q_conditional ((plain_question ''Q3'' Numeric True 2)
       \<lparr>q_conditional := Some \<lparr>dependsOn = ''Q1'', condition = GreaterThan, c_value = CNum 3\<rparr>\<rparr>)
     = Some \<lparr>dependsOn = ''Q1'', condition = GreaterThan, c_value = CNum 3\<rparr>
   \<and> renderQuestion_visible numString_nat
        ((plain_question ''Q3'' Numeric True 2)
          \<lparr>q_conditional := Some \<lparr>dependsOn = ''Q1'', condition = GreaterThan, c_value = CNum 3\<rparr>\<rparr>)
        [(''Q1'', Str ''1'')]"
proof -
  have h: "q_conditional ((plain_question ''Q3'' Numeric True 2)
       \<lparr>q_conditional := Some \<lparr>dependsOn = ''Q1'', condition = GreaterThan, c_value = CNum 3\<rparr>\<rparr>)
     = Some \<lparr>dependsOn = ''Q1'', condition = GreaterThan, c_value = CNum 3\<rparr>"
    by simp
  have c: "condition \<lparr>dependsOn = ''Q1'', condition = GreaterThan, c_value = CNum 3\<rparr> = GreaterThan
         \<or> condition \<lparr>dependsOn = ''Q1'', condition = GreaterThan, c_value = CNum 3\<rparr> = LessThan"
    by simp
  from unhandled_conditions_show [OF h c] h show ?thesis by blast
qed

section \<open>Reordering and adding from the sidebar (C3, C6, C8)\<close>

text \<open>
  C3 at the scenario of the specification: for the sections A, B, C the drop of C onto
  A hands the unchanged assessment to \<open>onUpdateAssessment\<close>; the sections stay A, B, C.
\<close>

theorem reorder_returns_input:
  "map s_id (a_sections abc_assessment) = [''A'', ''B'', ''C'']
   \<and> map s_order (a_sections abc_assessment) = [0, 1, 2]
   \<and> handleDragEnd abc_assessment ''C'' (Some ''A'') = Some abc_assessment
   \<and> map s_id (a_sections (reorderItems abc_assessment ''C'' ''A'')) = [''A'', ''B'', ''C'']"
  by (simp add: handleDragEnd_def reorderItems_def abc_assessment_def plain_assessment_def
      plain_section_def)

text \<open>
  C6 at an assessment without sections: the click on the short-text button hands over
  first an assessment holding the empty default section and then, from the timer, an
  assessment without sections, the one the closure of \<open>addQuestion\<close> still holds;
  after the event there is neither the default section nor the question.
\<close>

theorem first_question_click_loses_section:
  "a_sections (plain_assessment []) = []
   \<and> map a_sections (questionTypeButton_onClick ''1700000000000'' ''1700000000100''
        (plain_assessment []) (questionTypes ! 2))
      = [[\<lparr>s_id = ''section-1700000000000'', s_title = ''Section 1'', s_description = Some [],
           s_order = 0, s_questions = [], s_isExpanded = Some True\<rparr>], []]
   \<and> a_sections (perform (clock_ms, AddTypedQuestion ''1700000000000'' ''1700000000100''
        (questionTypes ! 2)) (plain_assessment [])) = []"
  by (simp add: questionTypeButton_onClick_def BuilderSidebar_addQuestion_def
      plain_assessment_def perform_def updateAssessment_def)

text \<open>
  C8: when no question of any section has the id, \<open>updateQuestion\<close> of the sidebar
  returns the assessment it was given, and the sections stay as they were once the
  hook has stored the result.
\<close>

theorem updateQuestion_miss_is_noop:
  assumes "questionId \<notin> set (map q_id (concat (map s_questions (a_sections assessment))))"
  shows "BuilderSidebar_updateQuestion assessment questionId updates = assessment
       \<and> a_sections (updateAssessment now
            (BuilderSidebar_updateQuestion assessment questionId updates))
          = a_sections assessment"
  using assms
  by (simp add: BuilderSidebar_updateQuestion_def updateAssessment_def
      updateQuestion_sections_unchanged)

theorem updateQuestion_miss_is_noop_witness:
  "''question-42'' \<notin> set (map q_id (concat (map s_questions (a_sections (createSampleAssessment (DateAt 0))))))
   \<and> BuilderSidebar_updateQuestion (createSampleAssessment (DateAt 0)) ''question-42''
        \<lparr>qp_id = None, qp_type = None, qp_title = Some ''Renamed'', qp_description = None,
         qp_required = None, qp_order = None, qp_validation = None, qp_conditional = None,
         qp_options = None, qp_placeholder = None\<rparr>
      = createSampleAssessment (DateAt 0)"
proof -
  have h: "''question-42'' \<notin> set (map q_id (concat (map s_questions (a_sections (createSampleAssessment (DateAt 0))))))"
    by (simp add: createSampleAssessment_def)
  from updateQuestion_miss_is_noop [OF h] h show ?thesis by simp
qed

section \<open>Loading and progress (C7, C9)\<close>

text \<open>
  C7, as the code has it. A stored assessment that parses and whose two timestamps
  are not readable as dates is loaded without an exception, with both timestamps
  Invalid Date; the current time appears only in the sample assessment, which is what
  a text that does not parse falls back to.
\<close>

theorem malformed_timestamps_stay_invalid:
  assumes "saved \<noteq> []"
    and "JSON_parse saved = Some parsed"
    and "newDate (p_createdAt parsed) = InvalidDate"
    and "newDate (p_updatedAt parsed) = InvalidDate"
  shows "useAssessment_init JSON_parse newDate now (Some saved)
           = \<lparr>a_id = p_id parsed, a_jobId = p_jobId parsed, a_title = p_title parsed,
              a_description = p_description parsed, a_sections = p_sections parsed,
              a_createdAt = InvalidDate, a_updatedAt = InvalidDate\<rparr>
       \<and> (JSON_parse other = None \<longrightarrow>
            useAssessment_init JSON_parse newDate now (Some other) = createSampleAssessment now
            \<and> a_createdAt (createSampleAssessment now) = now
            \<and> a_updatedAt (createSampleAssessment now) = now)"
  using assms by (simp add: useAssessment_init_def createSampleAssessment_def)

theorem malformed_timestamps_stay_invalid_witness:
  "''{stored}'' \<noteq> [] \<and> JSON_parse_stored ''{stored}'' = Some stored_blob
   \<and> newDate_iso (p_createdAt stored_blob) = InvalidDate
   \<and> newDate_iso (p_updatedAt stored_blob) = InvalidDate
   \<and> JSON_parse_stored ''{'' = None
   \<and> a_updatedAt (useAssessment_init JSON_parse_stored newDate_iso (clock_ms 0) (Some ''{stored}''))
       = InvalidDate
   \<and> useAssessment_init JSON_parse_stored newDate_iso (clock_ms 0) (Some ''{'')
       = createSampleAssessment (clock_ms 0)"
proof -
  have n: "''{stored}'' \<noteq> []" by simp
  have p: "JSON_parse_stored ''{stored}'' = Some stored_blob"
    by (simp add: JSON_parse_stored_def)
  have c: "newDate_iso (p_createdAt stored_blob) = InvalidDate"
    by (simp add: stored_blob_def newDate_iso_def)
  have u: "newDate_iso (p_updatedAt stored_blob) = InvalidDate"
    by (simp add: stored_blob_def newDate_iso_def)
  have o: "JSON_parse_stored ''{'' = None"
    by (simp add: JSON_parse_stored_def)
  from malformed_timestamps_stay_invalid [where JSON_parse = JSON_parse_stored
      and newDate = newDate_iso and saved = "''{stored}''" and parsed = stored_blob
      and other = "''{''" and now = "clock_ms 0", OF n p c u] n p c u o
  show ?thesis by simp
qed

text \<open>
  The claim C7 as the specification words it fails: the loaded timestamps are Invalid
  Date, not the current time.
\<close>

theorem malformed_timestamp_counterexample:
  "JSON_parse_stored ''{stored}'' = Some stored_blob
   \<and> newDate_iso (p_createdAt stored_blob) = InvalidDate
   \<and> newDate_iso (p_updatedAt stored_blob) = InvalidDate
   \<and> a_createdAt (useAssessment_init JSON_parse_stored newDate_iso (clock_ms 0) (Some ''{stored}''))
       = InvalidDate
   \<and> a_updatedAt (useAssessment_init JSON_parse_stored newDate_iso (clock_ms 0) (Some ''{stored}''))
       = InvalidDate
   \<and> clock_ms 0 \<noteq> InvalidDate"
  by (simp add: JSON_parse_stored_def stored_blob_def newDate_iso_def useAssessment_init_def
      clock_ms_def)

text \<open>
  C9: \<open>progress\<close> always has a value; it is 0 when the sections hold no question,
  and otherwise the number of distinct keys of the response map divided by the number
  of questions, times 100.
\<close>

theorem progress_total_and_guarded:
  "progress assessment p =
     Some (if sum_list (map (\<lambda>s. length (s_questions s)) (a_sections assessment)) = 0 then 0
           else of_nat (card (dom (obj_get (responses p)))) /
                of_nat (sum_list (map (\<lambda>s. length (s_questions s)) (a_sections assessment))) * 100)"
  by (simp add: progress_def totalQuestions_def answeredQuestions_def js_divide_def
      foldl_add_length Object_keys_card)

end
